theory Spec2Isabelle
  imports
    Complex_Main
    "HOL-Library.DAList"
    "HOL-Library.Char_ord"
    "HOL-Library.List_Lexorder"
begin

section \<open>The health calculators of \<^verbatim>\<open>Kawaii.py\<close> and \<^verbatim>\<open>HCA.py\<close>\<close>

text \<open>
  The two source files hold the same three calculators, statement for statement; they
  differ only in the literal texts of some status messages. The functions below are
  translated once and take those literals as a record, with one instance per file.
  (\<^verbatim>\<open>HCA.py\<close> has a fourth function, which stores a profile in a dictionary of
  its own and touches none of the data of the calculators; it is not translated.)

  Conventions of the embedding:
  \<^item> Python numbers (\<^verbatim>\<open>int\<close> and \<^verbatim>\<open>float\<close>) are exact rationals:
    the arithmetic of the source is read as exact arithmetic, so overflow, underflow
    and the rounding error of binary floating point are not part of the model. The
    digits of a computed BMI and its category near a boundary depend on that rounding
    and on the power function of the C library; what is proved of the BMI calculator
    below does not.
  \<^item> A Python \<^verbatim>\<open>str\<close> is a \<^typ>\<open>string\<close> holding its UTF-8 bytes, as text
    beyond ASCII stands in the source files. The library functions that read digits
    decode it and work on the code points.
  \<^item> A Python \<^verbatim>\<open>dict\<close> is an association list with distinct keys in insertion
    order.
  \<^item> The module-level globals are the fields of a record that every function takes
    and returns.
  \<^item> An f-string is the list of its pieces, so that no number formatting is modelled.
\<close>

subsection \<open>Python library functions used by the source\<close>

type_synonym number = rat

datatype error = ValueError

datatype piece = Lit string | Num number

type_synonym fstring = "piece list"

text \<open>\<^verbatim>\<open>round(x)\<close>: to the nearest integer, a tie to the even neighbour.\<close>

definition py_round :: "number \<Rightarrow> int" where
  "py_round x =
     (let f = \<lfloor>x\<rfloor>; d = x - of_int f
      in if d < 1 / 2 then f
         else if 1 / 2 < d then f + 1
         else if even f then f else f + 1)"

text \<open>\<^verbatim>\<open>round(x, 2)\<close>: to the nearest multiple of one hundredth, ties to even.\<close>

definition py_round2 :: "number \<Rightarrow> number" where
  "py_round2 x = of_int (py_round (x * 100)) / 100"

definition starts_with :: "string \<Rightarrow> string \<Rightarrow> bool" where
  "starts_with p s = (take (length p) s = p)"

text \<open>
  \<^verbatim>\<open>s.split(sep)\<close> for a non-empty separator: the pieces between the occurrences
  of \<open>sep\<close>, found from the left without overlap. The list is never empty.
\<close>

function py_split_from :: "string \<Rightarrow> string \<Rightarrow> string \<Rightarrow> string list" where
  "py_split_from sep cur [] = [rev cur]"
| "py_split_from sep cur (c # cs) =
     (if sep \<noteq> [] \<and> starts_with sep (c # cs)
      then rev cur # py_split_from sep [] (drop (length sep) (c # cs))
      else py_split_from sep (c # cur) cs)"
  by pat_completeness auto
termination
  by (relation "measure (\<lambda>(sep, cur, s). length s)") (auto simp: neq_Nil_conv)

definition py_split :: "string \<Rightarrow> string \<Rightarrow> string list" where
  "py_split sep s = py_split_from sep [] s"

text \<open>\<^verbatim>\<open>s.replace(old, new)\<close> for a non-empty \<open>old\<close>.\<close>

function py_replace :: "string \<Rightarrow> string \<Rightarrow> string \<Rightarrow> string" where
  "py_replace old new [] = []"
| "py_replace old new (c # cs) =
     (if old \<noteq> [] \<and> starts_with old (c # cs)
      then new @ py_replace old new (drop (length old) (c # cs))
      else c # py_replace old new cs)"
  by pat_completeness auto
termination
  by (relation "measure (\<lambda>(old, new, s). length s)") (auto simp: neq_Nil_conv)

text \<open>
  The library functions that read digits work on the characters of the string, that is
  on code points. A string of the model holds the UTF-8 bytes of the Python string (a
  lone surrogate as the three bytes of the same scheme); bytes that encode nothing stand
  for the replacement character.
\<close>

type_synonym codepoint = int

definition is_cont :: "char \<Rightarrow> bool" where
  "is_cont b \<longleftrightarrow> 0x80 \<le> (of_char b :: int) \<and> (of_char b :: int) < 0xC0"

definition conts :: "nat \<Rightarrow> string \<Rightarrow> bool" where
  "conts n s \<longleftrightarrow> n \<le> length s \<and> list_all is_cont (take n s)"

definition utf8_value :: "int \<Rightarrow> nat \<Rightarrow> string \<Rightarrow> codepoint" where
  "utf8_value lead n s = foldl (\<lambda>acc b. acc * 64 + (of_char b - 0x80)) lead (take n s)"

text \<open>The code point at the head of a string and the number of bytes it takes after the first.\<close>

definition utf8_head :: "char \<Rightarrow> string \<Rightarrow> codepoint \<times> nat" where
  "utf8_head a s =
     (let x = (of_char a :: int) in
      if x < 0x80 then (x, 0)
      else if 0xC0 \<le> x \<and> x < 0xE0 \<and> conts 1 s \<and> 0x80 \<le> utf8_value (x - 0xC0) 1 s
      then (utf8_value (x - 0xC0) 1 s, 1)
      else if 0xE0 \<le> x \<and> x < 0xF0 \<and> conts 2 s \<and> 0x800 \<le> utf8_value (x - 0xE0) 2 s
      then (utf8_value (x - 0xE0) 2 s, 2)
      else if 0xF0 \<le> x \<and> x < 0xF8 \<and> conts 3 s \<and> 0x10000 \<le> utf8_value (x - 0xF0) 3 s
              \<and> utf8_value (x - 0xF0) 3 s \<le> 0x10FFFF
      then (utf8_value (x - 0xF0) 3 s, 3)
      else (0xFFFD, 0))"

function utf8_decode :: "string \<Rightarrow> codepoint list" where
  "utf8_decode [] = []"
| "utf8_decode (a # s) = fst (utf8_head a s) # utf8_decode (drop (snd (utf8_head a s)) s)"
  by pat_completeness auto
termination
  by (relation "measure length") auto

text \<open>
  The decimal digits of Unicode 14, the character data of CPython 3.11: each entry is
  the code point of a digit zero, followed by the digits one to nine of its script. The
  mathematical digits from U+1D7CE on are five such runs in a row.
\<close>

definition decimal_zeros :: "codepoint list" where
  "decimal_zeros =
     [0x30, 0x660, 0x6F0, 0x7C0, 0x966, 0x9E6, 0xA66, 0xAE6, 0xB66, 0xBE6, 0xC66, 0xCE6,
      0xD66, 0xDE6, 0xE50, 0xED0, 0xF20, 0x1040, 0x1090, 0x17E0, 0x1810, 0x1946, 0x19D0,
      0x1A80, 0x1A90, 0x1B50, 0x1BB0, 0x1C40, 0x1C50, 0xA620, 0xA8D0, 0xA900, 0xA9D0,
      0xA9F0, 0xAA50, 0xABF0, 0xFF10, 0x104A0, 0x10D30, 0x11066, 0x110F0, 0x11136, 0x111D0,
      0x112F0, 0x11450, 0x114D0, 0x11650, 0x116C0, 0x11730, 0x118E0, 0x11950, 0x11C50,
      0x11D50, 0x11DA0, 0x16A60, 0x16AC0, 0x16B50, 0x1D7CE, 0x1E140, 0x1E2F0, 0x1E950,
      0x1FBF0]"

definition digit_val :: "codepoint \<Rightarrow> int option" where
  "digit_val c =
     (case find (\<lambda>z. z \<le> c \<and> c < z + (if z = 0x1D7CE then 50 else 10)) decimal_zeros of
        None \<Rightarrow> None
      | Some z \<Rightarrow> Some ((c - z) mod 10))"

text \<open>
  \<^verbatim>\<open>int(s)\<close> on a string, base ten: surrounding white space is dropped, one sign is
  allowed, then decimal digits of any script with single underscores between them.
  White space is what \<^verbatim>\<open>int\<close> skips: the six ASCII characters and the space
  characters beyond ASCII, not the separators U+001C to U+001F. More than
  \<open>max_str_digits\<close> digits are refused (the default limit of CPython). Every failure
  is a \<^verbatim>\<open>ValueError\<close>, here \<open>None\<close>.
\<close>

definition is_space :: "codepoint \<Rightarrow> bool" where
  "is_space c \<longleftrightarrow>
     c \<in> set [0x09, 0x0A, 0x0B, 0x0C, 0x0D, 0x20, 0x85, 0xA0, 0x1680,
              0x2000, 0x2001, 0x2002, 0x2003, 0x2004, 0x2005, 0x2006, 0x2007, 0x2008,
              0x2009, 0x200A, 0x2028, 0x2029, 0x202F, 0x205F, 0x3000]"

definition py_strip :: "codepoint list \<Rightarrow> codepoint list" where
  "py_strip s = rev (dropWhile is_space (rev (dropWhile is_space s)))"

fun parse_digits :: "int \<Rightarrow> codepoint list \<Rightarrow> int option" where
  "parse_digits acc [] = Some acc"
| "parse_digits acc (c # cs) =
     (if c = 0x5F
      then (case cs of
              [] \<Rightarrow> None
            | d # ds \<Rightarrow>
                (case digit_val d of
                   None \<Rightarrow> None
                 | Some v \<Rightarrow> parse_digits (10 * acc + v) ds))
      else (case digit_val c of
              None \<Rightarrow> None
            | Some v \<Rightarrow> parse_digits (10 * acc + v) cs))"

definition max_str_digits :: int where
  "max_str_digits = 4300"

definition parse_unsigned :: "codepoint list \<Rightarrow> int option" where
  "parse_unsigned body =
     (case body of
        [] \<Rightarrow> None
      | c # cs \<Rightarrow>
          (case digit_val c of
             None \<Rightarrow> None
           | Some v \<Rightarrow>
               if max_str_digits < int (length (filter (\<lambda>x. digit_val x \<noteq> None) body))
               then None
               else parse_digits v cs))"

definition int_of_text :: "codepoint list \<Rightarrow> int option" where
  "int_of_text s =
     (case py_strip s of
        [] \<Rightarrow> None
      | c # cs \<Rightarrow>
          if c = 0x2D then map_option uminus (parse_unsigned cs)
          else if c = 0x2B then parse_unsigned cs
          else parse_unsigned (c # cs))"

definition py_int :: "string \<Rightarrow> int option" where
  "py_int s = int_of_text (utf8_decode s)"

text \<open>
  \<^verbatim>\<open>datetime.strptime(s, '%Y-%m-%d')\<close>. The format compiles to the regular expression
  \<^verbatim>\<open>(\d\d\d\d)-(1[0-2]|0[1-9]|[1-9])-(3[0-1]|[1-2]\d|0[1-9]|[1-9]| [1-9])\<close>,
  matched at the start of the string, where \<^verbatim>\<open>\d\<close> is any decimal digit of Unicode
  and the classes in brackets are ASCII. Text left over after the match, a date that
  does not exist and the year 0 are all a \<^verbatim>\<open>ValueError\<close>, here \<open>None\<close>.
  The alternatives are tried in the order written. (The hyphen after the month always
  follows the first alternative that matches or none of them, so no backtracking is
  modelled.) The groups are converted with \<^verbatim>\<open>int\<close>.
\<close>

type_synonym matcher = "codepoint list \<Rightarrow> (codepoint list \<times> codepoint list) option"

definition cls :: "string \<Rightarrow> codepoint \<Rightarrow> bool" where
  "cls cs c \<longleftrightarrow> c \<in> set (map of_char cs)"

definition is_decimal :: "codepoint \<Rightarrow> bool" where
  "is_decimal c \<longleftrightarrow> digit_val c \<noteq> None"

definition one :: "(codepoint \<Rightarrow> bool) \<Rightarrow> matcher" where
  "one p s = (case s of a # r \<Rightarrow> if p a then Some ([a], r) else None | [] \<Rightarrow> None)"

definition two :: "(codepoint \<Rightarrow> bool) \<Rightarrow> (codepoint \<Rightarrow> bool) \<Rightarrow> matcher" where
  "two p q s =
     (case s of
        a # b # r \<Rightarrow> if p a \<and> q b then Some ([a, b], r) else None
      | _ \<Rightarrow> None)"

fun alts :: "matcher list \<Rightarrow> matcher" where
  "alts [] s = None"
| "alts (m # ms) s = (case m s of Some r \<Rightarrow> Some r | None \<Rightarrow> alts ms s)"

definition re_Y :: matcher where
  "re_Y s =
     (case s of
        a # b # c # d # r \<Rightarrow>
          if is_decimal a \<and> is_decimal b \<and> is_decimal c \<and> is_decimal d
          then Some ([a, b, c, d], r) else None
      | _ \<Rightarrow> None)"

definition re_m :: matcher where
  "re_m = alts [two (cls ''1'') (cls ''012''),
                two (cls ''0'') (cls ''123456789''),
                one (cls ''123456789'')]"

definition re_d :: matcher where
  "re_d = alts [two (cls ''3'') (cls ''01''),
                two (cls ''12'') is_decimal,
                two (cls ''0'') (cls ''123456789''),
                one (cls ''123456789''),
                two (cls '' '') (cls ''123456789'')]"

record date =
  year :: int
  month :: int
  day :: int

definition is_leap :: "int \<Rightarrow> bool" where
  "is_leap y \<longleftrightarrow> y mod 4 = 0 \<and> (y mod 100 \<noteq> 0 \<or> y mod 400 = 0)"

definition days_in_month :: "int \<Rightarrow> int \<Rightarrow> int" where
  "days_in_month y m =
     (if m = 2 \<and> is_leap y then 29
      else [31, 28, 31, 30, 31, 30, 31, 31, 30, 31, 30, 31] ! nat (m - 1))"

text \<open>The constructor of \<^verbatim>\<open>datetime\<close>: it raises \<^verbatim>\<open>ValueError\<close> outside these ranges.\<close>

definition make_date :: "int \<Rightarrow> int \<Rightarrow> int \<Rightarrow> date option" where
  "make_date y m d =
     (if 1 \<le> y \<and> y \<le> 9999 \<and> 1 \<le> m \<and> m \<le> 12 \<and> 1 \<le> d \<and> d \<le> days_in_month y m
      then Some \<lparr>year = y, month = m, day = d\<rparr>
      else None)"

definition strptime :: "string \<Rightarrow> date option" where
  "strptime s =
     (case re_Y (utf8_decode s) of
        Some (ys, h1 # s1) \<Rightarrow>
          (case re_m s1 of
             Some (ms, h2 # s2) \<Rightarrow>
               (case re_d s2 of
                  Some (ds, []) \<Rightarrow>
                    (case (int_of_text ys, int_of_text ms, int_of_text ds) of
                       (Some y, Some m, Some d) \<Rightarrow>
                         if h1 = 0x2D \<and> h2 = 0x2D then make_date y m d else None
                     | _ \<Rightarrow> None)
                | _ \<Rightarrow> None)
           | _ \<Rightarrow> None)
      | _ \<Rightarrow> None)"

text \<open>
  \<^verbatim>\<open>d.strftime('%Y-%m-%d')\<close>: month and day in two digits, padded with a zero. The
  year is rendered by the C library; that of Linux writes a year below 1000 without
  leading zeros, which is what is modelled (other platforms pad it to four digits).
\<close>

definition digit_char :: "int \<Rightarrow> char" where
  "digit_char n = ''0123456789'' ! nat (n mod 10)"

definition pad2 :: "int \<Rightarrow> string" where
  "pad2 n = [digit_char (n div 10), digit_char n]"

definition pad4 :: "int \<Rightarrow> string" where
  "pad4 n = [digit_char (n div 1000), digit_char (n div 100), digit_char (n div 10), digit_char n]"

definition year_text :: "int \<Rightarrow> string" where
  "year_text y = dropWhile (\<lambda>c. c = CHR ''0'') (pad4 y)"

definition strftime :: "date \<Rightarrow> string" where
  "strftime d = year_text (year d) @ ''-'' @ pad2 (month d) @ ''-'' @ pad2 (day d)"

text \<open>\<^verbatim>\<open>d.get(k, default)\<close> on a dictionary.\<close>

definition dict_get :: "('k, 'v) alist \<Rightarrow> 'k \<Rightarrow> 'v \<Rightarrow> 'v" where
  "dict_get d k dflt = (case DAList.lookup d k of None \<Rightarrow> dflt | Some v \<Rightarrow> v)"

subsection \<open>The literal texts in which the two files differ\<close>

record app_text =
  bmi_msg_tail :: string
  bmr_invalid_msg :: string
  bmr_ok_msg :: string
  log_invalid_msg :: string
  log_ok_head :: string
  log_ok_tail :: string
  tdee_first_msg :: string
  no_food_msg :: string
  tdee_label_head :: string

definition Kawaii :: app_text where
  "Kawaii = \<lparr>
     bmi_msg_tail = [],
     bmr_invalid_msg = ''Please enter positive values for age, height, and weight.'',
     bmr_ok_msg = ''Results updated! '' @ [CHR 0xE2, CHR 0x9C, CHR 0xA8],
     log_invalid_msg = ''Please enter a valid calorie amount and food name. ''
       @ [CHR 0xF0, CHR 0x9F, CHR 0x98, CHR 0x9F],
     log_ok_head = ''Food logged successfully! Logged: '',
     log_ok_tail = '' kcal '' @ [CHR 0xF0, CHR 0x9F, CHR 0x8E, CHR 0x89],
     tdee_first_msg = ''Please calculate your TDEE in Tab 2 first! ''
       @ [CHR 0xE2, CHR 0x98, CHR 0x9D, CHR 0xEF, CHR 0xB8, CHR 0x8F],
     no_food_msg = ''No food logged yet. '' @ [CHR 0xF0, CHR 0x9F, CHR 0xA5, CHR 0x97],
     tdee_label_head = ''Your TDEE ('' \<rparr>"

definition HCA :: app_text where
  "HCA = \<lparr>
     bmi_msg_tail = '' '' @ [CHR 0xC3, CHR 0xA2, CHR 0xC5, CHR 0x93, CHR 0xC2, CHR 0xA8],
     bmr_invalid_msg = ''Please enter positive values for age, height, and weight. ''
       @ [CHR 0xC3, CHR 0xB0, CHR 0xC5, CHR 0xB8, CHR 0xE2, CHR 0x84, CHR 0xA2],
     bmr_ok_msg = ''Results updated successfully! ''
       @ [CHR 0xC3, CHR 0xB0, CHR 0xC5, CHR 0xB8, CHR 0xE2, CHR 0x80, CHR 0x99,
          CHR 0xE2, CHR 0x80, CHR 0x93],
     log_invalid_msg = ''Oops! Please enter a valid calorie amount and food name. ''
       @ [CHR 0xC3, CHR 0xB0, CHR 0xC5, CHR 0xB8, CHR 0xCB, CHR 0x9C, CHR 0xC5, CHR 0xB8],
     log_ok_head = ''Yay! Logged: '',
     log_ok_tail = '' kcal ''
       @ [CHR 0xC3, CHR 0xB0, CHR 0xC5, CHR 0xB8, CHR 0xC5, CHR 0xBD, CHR 0xE2, CHR 0x80,
          CHR 0xB0],
     tdee_first_msg = ''Please calculate your TDEE in Tab 2 first! ''
       @ [CHR 0xC3, CHR 0xA2, CHR 0xCB, CHR 0x9C, CHR 0xC3, CHR 0xAF, CHR 0xC2, CHR 0xB8],
     no_food_msg = ''No food logged yet. Let'' @ [CHR 0x27] @ ''s add some! ''
       @ [CHR 0xC3, CHR 0xB0, CHR 0xC5, CHR 0xB8, CHR 0xC2, CHR 0xA5, CHR 0xE2, CHR 0x80,
          CHR 0x94],
     tdee_label_head = ''TDEE ('' \<rparr>"

subsection \<open>The global data stores\<close>

record session =
  bmi_history :: "(string, number) alist"
  daily_calories :: "(string, number) alist"
  tdee_value :: number

definition initial :: session where
  "initial = \<lparr>bmi_history = DAList.empty, daily_calories = DAList.empty, tdee_value = 0\<rparr>"

subsection \<open>Plots\<close>

text \<open>
  What the two plotting paths hand to the user interface: the blank figure that carries
  only a title, or the bar chart of the per-date totals in the order of the sorted
  dates, with the height and the label of the horizontal line.
\<close>

datatype plot =
  EmptyPlot fstring
| BarChart "(string \<times> number) list" number fstring

definition create_empty_plot :: "fstring \<Rightarrow> plot" where
  "create_empty_plot message = EmptyPlot message"

definition default_plot_message :: fstring where
  "default_plot_message = [Lit ''No Data to Display'']"

subsection \<open>Unit conversion and the BMI calculator\<close>

definition convert_to_metric :: "number \<Rightarrow> number \<Rightarrow> string \<Rightarrow> number \<times> number" where
  "convert_to_metric height weight units =
     (if units = ''in/lbs'' then (height * 2.54, weight * 0.453592)
      else (height, weight))"

definition bmi_category :: "number \<Rightarrow> string" where
  "bmi_category bmi =
     (if bmi < 18.5 then ''Underweight''
      else if 18.5 \<le> bmi \<and> bmi < 24.9 then ''Normal weight''
      else if 25 \<le> bmi \<and> bmi < 29.9 then ''Overweight''
      else ''Obese'')"

definition calculate_and_track_bmi ::
  "app_text \<Rightarrow> number \<Rightarrow> number \<Rightarrow> string \<Rightarrow> string \<Rightarrow> session
     \<Rightarrow> (number \<times> string \<times> fstring) \<times> session" where
  "calculate_and_track_bmi T height weight units date_str s =
     (if height \<le> 0 \<or> weight \<le> 0
      then ((0, ''Invalid input'',
             [Lit ''Please enter positive values for height and weight.'']), s)
      else
        (case strptime date_str of
           None \<Rightarrow>
             ((0, ''Invalid date format'',
               [Lit ''Please enter date in YYYY-MM-DD format.'']), s)
         | Some date \<Rightarrow>
             (let (height_cm, weight_kg) = convert_to_metric height weight units;
                  height_m = height_cm / 100;
                  bmi = py_round2 (weight_kg / height_m\<^sup>2);
                  category = bmi_category bmi;
                  date_str' = strftime date
              in ((bmi, category,
                   [Lit ''Your BMI is '', Num bmi, Lit ''. Category: '', Lit category,
                    Lit (bmi_msg_tail T)]),
                  s\<lparr>bmi_history := DAList.update date_str' bmi (bmi_history s)\<rparr>))))"

subsection \<open>The metabolic rate calculator\<close>

definition activity_multipliers :: "(string \<times> number) list" where
  "activity_multipliers =
     [(''Sedentary (little to no exercise)'', 1.2),
      (''Lightly active (1-3 days/week)'', 1.375),
      (''Moderately active (3-5 days/week)'', 1.55),
      (''Very active (6-7 days/week)'', 1.725),
      (''Extra active (daily intense exercise)'', 1.9)]"

definition activity_multiplier :: "string \<Rightarrow> number" where
  "activity_multiplier activity_level =
     (case map_of activity_multipliers activity_level of None \<Rightarrow> 1.2 | Some m \<Rightarrow> m)"

definition calculate_bmr_tdee ::
  "app_text \<Rightarrow> number \<Rightarrow> string \<Rightarrow> number \<Rightarrow> number \<Rightarrow> string \<Rightarrow> session
     \<Rightarrow> (number \<times> number \<times> number \<times> number \<times> number \<times> fstring) \<times> session" where
  "calculate_bmr_tdee T age gender height weight activity_level s =
     (if age \<le> 0 \<or> height \<le> 0 \<or> weight \<le> 0
      then ((0, 0, 0, 0, 0, [Lit (bmr_invalid_msg T)]), s)
      else
        (let bmr = (if gender = ''Male''
                    then 66.5 + (13.75 * weight) + (5.003 * height) - (6.75 * age)
                    else 655.1 + (9.563 * weight) + (1.850 * height) - (4.676 * age));
             tdee = bmr * activity_multiplier activity_level;
             loss_calories = tdee - 500;
             gain_calories = tdee + 500
         in ((bmr, tdee, tdee, loss_calories, gain_calories, [Lit (bmr_ok_msg T)]),
             s\<lparr>tdee_value := tdee\<rparr>)))"

subsection \<open>The food tracker\<close>

text \<open>
  The first block of \<^verbatim>\<open>log_food_and_plot\<close>: which calories and which name are
  logged. \<^verbatim>\<open>int\<close> raises on a catalog string whose last piece is not a number.
  The manual name and calories may be \<^verbatim>\<open>None\<close>.
\<close>

definition resolve_entry ::
  "string \<Rightarrow> string option \<Rightarrow> number option \<Rightarrow> error + (number \<times> string)" where
  "resolve_entry food manual_food_name manual_calories =
     (if food \<noteq> ''Other''
      then (case py_int (py_replace '' kcal'' [] (last (py_split '' - '' food))) of
              None \<Rightarrow> Inl ValueError
            | Some n \<Rightarrow> Inr (of_int n, hd (py_split '' - '' food)))
      else
        (case (manual_calories, manual_food_name) of
           (Some c, Some n) \<Rightarrow> if 0 < c \<and> n \<noteq> [] then Inr (c, n) else Inr (0, [])
         | _ \<Rightarrow> Inr (0, [])))"

text \<open>
  The dates of the chart are the keys of the dictionary, so the look-up of each of them
  in the dictionary finds a value.
  \<^verbatim>\<open>today_str\<close> stands for \<^verbatim>\<open>datetime.now().strftime('%Y-%m-%d')\<close>, the one
  input the function reads from its environment.
\<close>

definition log_food_and_plot ::
  "app_text \<Rightarrow> string \<Rightarrow> string option \<Rightarrow> number option \<Rightarrow> string \<Rightarrow> session
     \<Rightarrow> (error + (number \<times> plot \<times> fstring)) \<times> session" where
  "log_food_and_plot T food manual_food_name manual_calories today_str s =
     (case resolve_entry food manual_food_name manual_calories of
        Inl e \<Rightarrow> (Inl e, s)
      | Inr (calories_to_add, food_name_to_log) \<Rightarrow>
          if calories_to_add \<le> 0 \<or> food_name_to_log = []
          then (Inr (dict_get (daily_calories s) today_str 0,
                     create_empty_plot [Lit (log_invalid_msg T)],
                     [Lit (log_invalid_msg T)]), s)
          else
            (let dc = (case DAList.lookup (daily_calories s) today_str of
                         Some old \<Rightarrow>
                           DAList.update today_str (old + calories_to_add) (daily_calories s)
                       | None \<Rightarrow>
                           DAList.update today_str calories_to_add (daily_calories s));
                 s' = s\<lparr>daily_calories := dc\<rparr>;
                 log_status_message =
                   [Lit (log_ok_head T), Lit food_name_to_log, Lit '' - '',
                    Num calories_to_add, Lit (log_ok_tail T)]
             in if tdee_value s' = 0
                then (Inr (dict_get dc today_str 0,
                           create_empty_plot [Lit (tdee_first_msg T)],
                           [Lit (tdee_first_msg T)]), s')
                else if DAList.impl_of dc = []
                then (Inr (0, create_empty_plot default_plot_message,
                           [Lit (no_food_msg T)]), s')
                else
                  (let dates = sort (map fst (DAList.impl_of dc));
                       calories = map (\<lambda>d. the (DAList.lookup dc d)) dates;
                       tdee_line_label =
                         [Lit (tdee_label_head T), Num (of_int (py_round (tdee_value s'))),
                          Lit '' kcal)'']
                   in (Inr (dict_get dc today_str 0,
                            BarChart (zip dates calories) (tdee_value s') tdee_line_label,
                            log_status_message), s'))))"

subsection \<open>The food catalogs of the drop-down lists\<close>

definition common_foods_Kawaii :: "string list" where
  "common_foods_Kawaii =
     [''Chicken with bazil - 500 kcal'', ''Omelet - 450 kcal'', ''Tom Yum Kung - 90 kcal'',
      ''Phad Thai - 550 kcal'', ''Chicken Green Curry - 240 kcal'',
      ''Papaya Salad - 70 kcal'', ''Stew Pork Leg - 650 kcal'', ''Chicken Rice - 600 kcal'',
      ''Chicken Massaman - 400 kcal'', ''Phad See Ew - 550 kcal'', ''Rice - 130 kcal'',
      ''Other'']"

definition common_foods_HCA :: "string list" where
  "common_foods_HCA =
     [''Chicken with bazil - 500 kcal'', ''Omelet - 450 kcal'', ''Tom Yum Kung - 90 kcal'',
      ''Phad Thai - 550 kcal'', ''Chicken Green Curry - 240 kcal'',
      ''Papaya Salad - 70 kcal'', ''Stew Pork Leg - 650 kcal'', ''Chicken Rice - 600 kcal'',
      ''Chicken Massaman - 400 kcal'', ''Phad See Ew - 550 kcal'', ''Rice - 130 kcal'',
      ''Thai Tea - 200 kcal'', ''Mango Sticky Rice - 350 kcal'',
      ''Coconut Milk Ice Cream - 280 kcal'', ''Thai-style fried rice - 550 kcal'',
      ''Pork Satay - 150 kcal'', ''Green Papaya Salad with Salted Egg - 180 kcal'',
      ''Pad Krapow (Stir-fried Basil) - 450 kcal'', ''Other'']"

subsection \<open>Sequences of calls\<close>

text \<open>
  A session in which the BMI calculator is called once for each element of a list, in
  order, each call on the state left by the one before.
\<close>

fun bmi_calls ::
  "app_text \<Rightarrow> (number \<times> number \<times> string \<times> string) list \<Rightarrow> session \<Rightarrow> session" where
  "bmi_calls T [] s = s"
| "bmi_calls T ((height, weight, units, date_str) # calls) s =
     bmi_calls T calls (snd (calculate_and_track_bmi T height weight units date_str s))"

section \<open>Properties\<close>

subsection \<open>The BMI calculator on valid input\<close>

lemma bmi_ok:
  assumes "0 < height" and "0 < weight" and "strptime date_str = Some d"
  shows "calculate_and_track_bmi T height weight units date_str s =
     (let hw = convert_to_metric height weight units;
          bmi = py_round2 (snd hw / (fst hw / 100)\<^sup>2)
      in ((bmi, bmi_category bmi,
           [Lit ''Your BMI is '', Num bmi, Lit ''. Category: '', Lit (bmi_category bmi),
            Lit (bmi_msg_tail T)]),
          s\<lparr>bmi_history := DAList.update (strftime d) bmi (bmi_history s)\<rparr>))"
  using assms by (simp add: calculate_and_track_bmi_def Let_def split: prod.splits)

lemma bmi_metric_example:
  assumes "strptime date_str = Some d" and "0 < h" and "0 < w"
    and "py_round2 (w / (h / 100)\<^sup>2) = b" and "bmi_category b = c"
  shows "fst (calculate_and_track_bmi T h w ''cm/kg'' date_str s)
           = (b, c, [Lit ''Your BMI is '', Num b, Lit ''. Category: '', Lit c,
                     Lit (bmi_msg_tail T)])"
  using assms by (simp add: bmi_ok Let_def convert_to_metric_def)

lemma bmi_imperial_example:
  assumes "strptime date_str = Some d" and "0 < h" and "0 < w"
    and "py_round2 (w * 0.453592 / (h * 2.54 / 100)\<^sup>2) = b" and "bmi_category b = c"
  shows "fst (calculate_and_track_bmi T h w ''in/lbs'' date_str s)
           = (b, c, [Lit ''Your BMI is '', Num b, Lit ''. Category: '', Lit c,
                     Lit (bmi_msg_tail T)])"
  using assms by (simp add: bmi_ok Let_def convert_to_metric_def)

lemma strptime_example: "strptime ''2024-01-05'' = Some \<lparr>year = 2024, month = 1, day = 5\<rparr>"
  by code_simp

text \<open>A date written with an Arabic-Indic digit four parses like the ASCII text.\<close>

lemma strptime_other_script:
  "strptime (''202'' @ [CHR 0xD9, CHR 0xA4] @ ''-01-05'')
     = Some \<lparr>year = 2024, month = 1, day = 5\<rparr>"
  by code_simp

subsection \<open>Rejected input of the BMI calculator\<close>

lemma strptime_bad: "strptime ''05/01/2024'' = None"
  by code_simp

text \<open>
  Claim C5. With a height or a weight that is not positive the BMI calculator returns
  the invalid-input result: BMI 0, the category text and the message asking for positive
  values. With positive height and weight and a date string that does not parse it
  returns the invalid-date result. In both cases the whole session state, and with it
  the BMI history, is returned as it was.
\<close>

theorem bmi_invalid_input_and_date:
  "(height \<le> 0 \<or> weight \<le> 0 \<longrightarrow>
      calculate_and_track_bmi T height weight units date_str s
        = ((0, ''Invalid input'',
            [Lit ''Please enter positive values for height and weight.'']), s))
   \<and> (0 < height \<and> 0 < weight \<and> strptime date_str = None \<longrightarrow>
      calculate_and_track_bmi T height weight units date_str s
        = ((0, ''Invalid date format'',
            [Lit ''Please enter date in YYYY-MM-DD format.'']), s))"
  by (auto simp: calculate_and_track_bmi_def)

text \<open>Height 0 is rejected, and so is the date 05/01/2024 with valid measurements.\<close>

theorem bmi_invalid_input_and_date_witness:
  "((0 :: number) \<le> 0 \<or> (70 :: number) \<le> 0)
   \<and> calculate_and_track_bmi Kawaii 0 70 ''cm/kg'' ''2024-01-05'' initial
       = ((0, ''Invalid input'',
           [Lit ''Please enter positive values for height and weight.'']), initial)
   \<and> (0 :: number) < 170 \<and> (0 :: number) < 70 \<and> strptime ''05/01/2024'' = None
   \<and> calculate_and_track_bmi Kawaii 170 70 ''cm/kg'' ''05/01/2024'' initial
       = ((0, ''Invalid date format'',
           [Lit ''Please enter date in YYYY-MM-DD format.'']), initial)"
  using bmi_invalid_input_and_date [where height = 0 and weight = 70 and T = Kawaii
      and units = "''cm/kg''" and date_str = "''2024-01-05''" and s = initial]
    bmi_invalid_input_and_date [where height = 170 and weight = 70 and T = Kawaii
      and units = "''cm/kg''" and date_str = "''05/01/2024''" and s = initial]
    strptime_bad
  by simp

subsection \<open>Units\<close>

lemma bmi_units_pass_through:
  "units \<noteq> ''in/lbs'' \<Longrightarrow>
   fst (calculate_and_track_bmi T (height * 2.54) (weight * 0.453592) units date_str s')
     = fst (calculate_and_track_bmi T height weight ''in/lbs'' date_str s)"
  by (auto simp: calculate_and_track_bmi_def convert_to_metric_def Let_def
      zero_less_mult_iff mult_le_0_iff split: option.splits)

text \<open>
  Claim C9. For positive height and weight, the BMI computed from a measurement in
  inches and pounds and the BMI computed from the same measurement converted to
  centimetres and kilograms (height times 2.54, weight times 0.453592) differ by at
  most 0.01.
\<close>

theorem bmi_unit_invariant:
  assumes "0 < height" and "0 < weight"
  shows "\<bar>fst (fst (calculate_and_track_bmi T height weight ''in/lbs'' date_str s))
          - fst (fst (calculate_and_track_bmi T (height * 2.54) (weight * 0.453592) ''cm/kg''
                  date_str s'))\<bar> \<le> 0.01"
proof -
  have eq: "fst (calculate_and_track_bmi T (height * 2.54) (weight * 0.453592) ''cm/kg''
      date_str s') = fst (calculate_and_track_bmi T height weight ''in/lbs'' date_str s)"
    by (rule bmi_units_pass_through) simp
  show ?thesis
    unfolding eq by simp
qed

text \<open>At 66 in and 154 lbs both calls give 24.86.\<close>

theorem bmi_unit_invariant_witness:
  "(0 :: number) < 66 \<and> (0 :: number) < 154
   \<and> fst (fst (calculate_and_track_bmi Kawaii 66 154 ''in/lbs'' ''2024-01-05'' initial)) = 24.86
   \<and> \<bar>fst (fst (calculate_and_track_bmi Kawaii 66 154 ''in/lbs'' ''2024-01-05'' initial))
       - fst (fst (calculate_and_track_bmi Kawaii (66 * 2.54) (154 * 0.453592) ''cm/kg''
               ''2024-01-05'' initial))\<bar> \<le> 0.01"
proof -
  have p1: "(0 :: number) < 66" and p2: "(0 :: number) < 154"
    by simp_all
  have v: "fst (calculate_and_track_bmi Kawaii 66 154 ''in/lbs'' ''2024-01-05'' initial)
       = (24.86, ''Normal weight'',
          [Lit ''Your BMI is '', Num 24.86, Lit ''. Category: '', Lit ''Normal weight'',
           Lit (bmi_msg_tail Kawaii)])"
    by (rule bmi_imperial_example [OF strptime_example]; code_simp)
  have v': "fst (fst (calculate_and_track_bmi Kawaii 66 154 ''in/lbs'' ''2024-01-05'' initial))
      = 24.86"
    unfolding v by simp
  from p1 p2 v' bmi_unit_invariant [OF p1 p2, where T = Kawaii and date_str = "''2024-01-05''"
      and s = initial and s' = initial]
  show ?thesis
    by blast
qed

subsection \<open>The metabolic rate calculator\<close>

lemma activity_multiplier_table:
  "activity_multiplier activity_level =
     (if activity_level = ''Sedentary (little to no exercise)'' then 1.2
      else if activity_level = ''Lightly active (1-3 days/week)'' then 1.375
      else if activity_level = ''Moderately active (3-5 days/week)'' then 1.55
      else if activity_level = ''Very active (6-7 days/week)'' then 1.725
      else if activity_level = ''Extra active (daily intense exercise)'' then 1.9
      else 1.2)"
  by (simp add: activity_multiplier_def activity_multipliers_def)

lemma bmr_ok:
  assumes "0 < age" and "0 < height" and "0 < weight"
  shows "calculate_bmr_tdee T age gender height weight activity_level s =
     (let bmr = (if gender = ''Male''
                 then 66.5 + 13.75 * weight + 5.003 * height - 6.75 * age
                 else 655.1 + 9.563 * weight + 1.850 * height - 4.676 * age);
          tdee = bmr * activity_multiplier activity_level
      in ((bmr, tdee, tdee, tdee - 500, tdee + 500, [Lit (bmr_ok_msg T)]),
          s\<lparr>tdee_value := tdee\<rparr>))"
  using assms by (simp add: calculate_bmr_tdee_def Let_def)

text \<open>
  Claim C2. For positive age, height and weight the calculator returns the
  Harris-Benedict rate \<open>66.5 + 13.75 w + 5.003 h - 6.75 a\<close> for the gender Male and
  \<open>655.1 + 9.563 w + 1.850 h - 4.676 a\<close> for Female; the daily expenditure is that rate
  times the multiplier of the activity level (1.2, 1.375, 1.55, 1.725 and 1.9 for the
  five levels of the drop-down list, 1.2 for any other text); the goals returned are the
  expenditure itself, the expenditure minus 500 and the expenditure plus 500. The
  expenditure is also stored in the session.
\<close>

theorem bmr_tdee_formulas:
  assumes "0 < age" and "0 < height" and "0 < weight"
  shows
    "\<exists>bmr tdee.
       calculate_bmr_tdee T age gender height weight activity_level s
         = ((bmr, tdee, tdee, tdee - 500, tdee + 500, [Lit (bmr_ok_msg T)]),
            s\<lparr>tdee_value := tdee\<rparr>)
       \<and> (gender = ''Male'' \<longrightarrow>
            bmr = 66.5 + 13.75 * weight + 5.003 * height - 6.75 * age)
       \<and> (gender = ''Female'' \<longrightarrow>
            bmr = 655.1 + 9.563 * weight + 1.850 * height - 4.676 * age)
       \<and> tdee = bmr *
           (if activity_level = ''Sedentary (little to no exercise)'' then 1.2
            else if activity_level = ''Lightly active (1-3 days/week)'' then 1.375
            else if activity_level = ''Moderately active (3-5 days/week)'' then 1.55
            else if activity_level = ''Very active (6-7 days/week)'' then 1.725
            else if activity_level = ''Extra active (daily intense exercise)'' then 1.9
            else 1.2)"
  using assms
  by (simp add: bmr_ok Let_def activity_multiplier_table [symmetric])

text \<open>
  A man of 30 years, 170 cm and 70 kg with a sedentary life: 1677.01 and 2012.412. A
  woman of the same measures: 1498.73, times 1.725 when very active and times 1.2 for a
  level that is not in the table.
\<close>

theorem bmr_tdee_formulas_witness:
  "(0 :: number) < 30 \<and> (0 :: number) < 170 \<and> (0 :: number) < 70
   \<and> fst (calculate_bmr_tdee Kawaii 30 ''Male'' 170 70
            ''Sedentary (little to no exercise)'' initial)
       = (1677.01, 2012.412, 2012.412, 1512.412, 2512.412, [Lit (bmr_ok_msg Kawaii)])
   \<and> tdee_value (snd (calculate_bmr_tdee Kawaii 30 ''Male'' 170 70
            ''Sedentary (little to no exercise)'' initial)) = 2012.412
   \<and> fst (calculate_bmr_tdee HCA 30 ''Female'' 170 70
            ''Very active (6-7 days/week)'' initial)
       = (1498.73, 2585.30925, 2585.30925, 2085.30925, 3085.30925, [Lit (bmr_ok_msg HCA)])
   \<and> fst (calculate_bmr_tdee HCA 30 ''Female'' 170 70 ''Jogging'' initial)
       = (1498.73, 1798.476, 1798.476, 1298.476, 2298.476, [Lit (bmr_ok_msg HCA)])"
  using bmr_tdee_formulas [where age = 30 and height = 170 and weight = 70 and T = Kawaii
      and gender = "''Male''" and activity_level = "''Sedentary (little to no exercise)''"
      and s = initial]
    bmr_tdee_formulas [where age = 30 and height = 170 and weight = 70 and T = HCA
      and gender = "''Female''" and activity_level = "''Very active (6-7 days/week)''"
      and s = initial]
    bmr_tdee_formulas [where age = 30 and height = 170 and weight = 70 and T = HCA
      and gender = "''Female''" and activity_level = "''Jogging''" and s = initial]
  by auto

text \<open>
  Claim C10. The calculator compares the gender only with the text \<open>Male\<close>. Any other
  text gives exactly what \<open>Female\<close> gives, that is the female formula on valid
  measurements, with the message of success. The only rejection is that of a
  non-positive age, height or weight, whatever the gender.
\<close>

theorem bmr_gender_only_male:
  "(gender \<noteq> ''Male'' \<longrightarrow>
      calculate_bmr_tdee T age gender height weight activity_level s
        = calculate_bmr_tdee T age ''Female'' height weight activity_level s)
   \<and> (0 < age \<and> 0 < height \<and> 0 < weight \<and> gender \<noteq> ''Male'' \<longrightarrow>
        fst (fst (calculate_bmr_tdee T age gender height weight activity_level s))
          = 655.1 + 9.563 * weight + 1.850 * height - 4.676 * age
        \<and> snd (snd (snd (snd (snd (fst
            (calculate_bmr_tdee T age gender height weight activity_level s))))))
          = [Lit (bmr_ok_msg T)])
   \<and> (0 < age \<and> 0 < height \<and> 0 < weight \<longrightarrow>
        fst (fst (calculate_bmr_tdee T age ''Male'' height weight activity_level s))
          = 66.5 + 13.75 * weight + 5.003 * height - 6.75 * age)
   \<and> (age \<le> 0 \<or> height \<le> 0 \<or> weight \<le> 0 \<longrightarrow>
        calculate_bmr_tdee T age gender height weight activity_level s
          = ((0, 0, 0, 0, 0, [Lit (bmr_invalid_msg T)]), s))"
  by (auto simp: calculate_bmr_tdee_def Let_def)

text \<open>
  The texts \<open>male\<close> and the empty text are treated as \<open>Female\<close>: 1498.73 where \<open>Male\<close>
  gives 1677.01. With age 0 the text \<open>male\<close> meets the rejection of the measurements.
\<close>

theorem bmr_gender_only_male_witness:
  "''male'' \<noteq> ''Male''
   \<and> calculate_bmr_tdee Kawaii 30 ''male'' 170 70 ''Sedentary (little to no exercise)'' initial
       = calculate_bmr_tdee Kawaii 30 ''Female'' 170 70 ''Sedentary (little to no exercise)''
           initial
   \<and> (0 :: number) < 30 \<and> (0 :: number) < 170 \<and> (0 :: number) < 70
   \<and> fst (fst (calculate_bmr_tdee Kawaii 30 ''male'' 170 70
        ''Sedentary (little to no exercise)'' initial)) = 1498.73
   \<and> fst (fst (calculate_bmr_tdee Kawaii 30 [] 170 70
        ''Sedentary (little to no exercise)'' initial)) = 1498.73
   \<and> fst (fst (calculate_bmr_tdee Kawaii 30 ''Male'' 170 70
        ''Sedentary (little to no exercise)'' initial)) = 1677.01
   \<and> calculate_bmr_tdee Kawaii 0 ''male'' 170 70 ''Sedentary (little to no exercise)'' initial
       = ((0, 0, 0, 0, 0, [Lit (bmr_invalid_msg Kawaii)]), initial)"
  using bmr_gender_only_male [where gender = "''male''" and T = Kawaii and age = 30
      and height = 170 and weight = 70
      and activity_level = "''Sedentary (little to no exercise)''" and s = initial]
    bmr_gender_only_male [where gender = "[]" and T = Kawaii and age = 30
      and height = 170 and weight = 70
      and activity_level = "''Sedentary (little to no exercise)''" and s = initial]
    bmr_gender_only_male [where gender = "''male''" and T = Kawaii and age = 0
      and height = 170 and weight = 70
      and activity_level = "''Sedentary (little to no exercise)''" and s = initial]
  by (simp add: calculate_bmr_tdee_def Let_def)

subsection \<open>The food tracker\<close>

text \<open>
  A split has at least one piece, so taking the first and the last piece of it, as the
  source does with the indices 0 and -1, cannot fail.
\<close>

lemma py_split_from_not_Nil: "py_split_from sep cur s \<noteq> []"
  by (induction sep cur s rule: py_split_from.induct) auto

lemma py_split_not_Nil: "py_split sep s \<noteq> []"
  by (simp add: py_split_def py_split_from_not_Nil)

lemma update_impl_not_Nil: "DAList.impl_of (DAList.update k v d) \<noteq> []"
  by (simp add: DAList.update.rep_eq)

lemma log_invalid:
  assumes "resolve_entry food mn mc = Inr (c, n)" and "c \<le> 0 \<or> n = []"
  shows "log_food_and_plot T food mn mc today s =
     (Inr (dict_get (daily_calories s) today 0, EmptyPlot [Lit (log_invalid_msg T)],
           [Lit (log_invalid_msg T)]), s)"
  using assms by (auto simp: log_food_and_plot_def create_empty_plot_def)

lemma log_valid:
  assumes "resolve_entry food mn mc = Inr (c, n)" and "0 < c" and "n \<noteq> []"
  shows "log_food_and_plot T food mn mc today s =
     (let dc = DAList.update today (dict_get (daily_calories s) today 0 + c) (daily_calories s);
          total = dict_get (daily_calories s) today 0 + c
      in if tdee_value s = 0
         then (Inr (total, EmptyPlot [Lit (tdee_first_msg T)], [Lit (tdee_first_msg T)]),
               s\<lparr>daily_calories := dc\<rparr>)
         else (Inr (total,
                    BarChart (map (\<lambda>d. (d, the (DAList.lookup dc d)))
                                (sort (map fst (DAList.impl_of dc))))
                      (tdee_value s)
                      [Lit (tdee_label_head T), Num (of_int (py_round (tdee_value s))),
                       Lit '' kcal)''],
                    [Lit (log_ok_head T), Lit n, Lit '' - '', Num c, Lit (log_ok_tail T)]),
               s\<lparr>daily_calories := dc\<rparr>))"
  using assms
  by (auto simp: log_food_and_plot_def create_empty_plot_def Let_def dict_get_def
      update_impl_not_Nil zip_map2 zip_same_conv_map split: option.splits)

lemma resolve_other:
  "resolve_entry ''Other'' mn mc =
     (case (mc, mn) of
        (Some c, Some n) \<Rightarrow> if 0 < c \<and> n \<noteq> [] then Inr (c, n) else Inr (0, [])
      | _ \<Rightarrow> Inr (0, []))"
  by (simp add: resolve_entry_def)

lemma resolve_catalog:
  "food \<noteq> ''Other'' \<Longrightarrow>
   resolve_entry food mn mc =
     (case py_int (py_replace '' kcal'' [] (last (py_split '' - '' food))) of
        None \<Rightarrow> Inl ValueError
      | Some k \<Rightarrow> Inr (of_int k, hd (py_split '' - '' food)))"
  by (simp add: resolve_entry_def)

lemma resolve_omelet: "resolve_entry ''Omelet - 450 kcal'' None None = Inr (450, ''Omelet'')"
  by code_simp

lemma resolve_chicken:
  "resolve_entry ''Chicken with bazil - 500 kcal'' None None = Inr (500, ''Chicken with bazil'')"
  by code_simp

lemma resolve_tom_yum:
  "resolve_entry ''Tom Yum Kung - 90 kcal'' None None = Inr (90, ''Tom Yum Kung'')"
  by code_simp

lemma banana_suffix:
  "py_int (py_replace '' kcal'' [] (last (py_split '' - '' ''Banana''))) = None"
  by code_simp

lemma initial_today: "dict_get (daily_calories initial) today 0 = 0"
  by (simp add: initial_def dict_get_def)

text \<open>Every entry of the two catalogs resolves to a positive amount and a name.\<close>

lemma common_foods_resolve:
  "list_all (\<lambda>f. f = ''Other'' \<or>
      (case resolve_entry f None None of Inr (c, n) \<Rightarrow> 0 < c \<and> n \<noteq> [] | Inl e \<Rightarrow> False))
     (common_foods_Kawaii @ common_foods_HCA)"
  by code_simp

text \<open>
  Claim C6. When the resolved calories are not positive or the resolved name is empty,
  the food tracker returns today's total as it stands, the blank plot and the message
  asking for a valid entry, raises nothing and returns the session state as it was. In
  particular this is so for the selection \<open>Other\<close> with a manual entry whose calories
  are absent or not positive or whose name is absent or empty.
\<close>

theorem log_soft_failure:
  "(resolve_entry food mn mc = Inr (c, n) \<and> (c \<le> 0 \<or> n = []) \<longrightarrow>
      log_food_and_plot T food mn mc today s
        = (Inr (case DAList.lookup (daily_calories s) today of None \<Rightarrow> 0 | Some v \<Rightarrow> v,
                EmptyPlot [Lit (log_invalid_msg T)], [Lit (log_invalid_msg T)]), s))
   \<and> (mc' = None \<or> (\<exists>x. mc' = Some x \<and> x \<le> 0) \<or> mn' = None \<or> mn' = Some [] \<longrightarrow>
      log_food_and_plot T ''Other'' mn' mc' today s
        = (Inr (case DAList.lookup (daily_calories s) today of None \<Rightarrow> 0 | Some v \<Rightarrow> v,
                EmptyPlot [Lit (log_invalid_msg T)], [Lit (log_invalid_msg T)]), s))"
proof (intro conjI impI)
  assume "resolve_entry food mn mc = Inr (c, n) \<and> (c \<le> 0 \<or> n = [])"
  then show "log_food_and_plot T food mn mc today s
        = (Inr (case DAList.lookup (daily_calories s) today of None \<Rightarrow> 0 | Some v \<Rightarrow> v,
                EmptyPlot [Lit (log_invalid_msg T)], [Lit (log_invalid_msg T)]), s)"
    by (simp add: log_invalid dict_get_def)
next
  assume "mc' = None \<or> (\<exists>x. mc' = Some x \<and> x \<le> 0) \<or> mn' = None \<or> mn' = Some []"
  then have "resolve_entry ''Other'' mn' mc' = Inr (0, [])"
    by (auto simp: resolve_other split: option.splits)
  then have "log_food_and_plot T ''Other'' mn' mc' today s
        = (Inr (dict_get (daily_calories s) today 0, EmptyPlot [Lit (log_invalid_msg T)],
                [Lit (log_invalid_msg T)]), s)"
    by (rule log_invalid) simp
  then show "log_food_and_plot T ''Other'' mn' mc' today s
        = (Inr (case DAList.lookup (daily_calories s) today of None \<Rightarrow> 0 | Some v \<Rightarrow> v,
                EmptyPlot [Lit (log_invalid_msg T)], [Lit (log_invalid_msg T)]), s)"
    by (simp add: dict_get_def)
qed

text \<open>
  In a session that holds 100 kcal for today and 300 kcal for the day before: a manual
  entry of -5 kcal, one without a name, one with an empty name and one without calories,
  each on the selection \<open>Other\<close>, and a catalog string of 0 kcal. Each call returns 100
  and the session as it was. In the initial session the total returned is 0.
\<close>

theorem log_soft_failure_witness:
  "(let s1 = initial\<lparr>daily_calories :=
                DAList.update ''2024-01-05'' 100
                  (DAList.update ''2024-01-04'' 300 DAList.empty)\<rparr>;
        failed = (\<lambda>T total s.
          (Inr (total, EmptyPlot [Lit (log_invalid_msg T)], [Lit (log_invalid_msg T)]), s))
    in resolve_entry ''Other'' (Some ''Soup'') (Some (- 5)) = Inr (0, [])
       \<and> resolve_entry ''Water - 0 kcal'' None None = Inr (0, ''Water'')
       \<and> DAList.lookup (daily_calories s1) ''2024-01-05'' = Some 100
       \<and> log_food_and_plot Kawaii ''Other'' (Some ''Soup'') (Some (- 5)) ''2024-01-05'' s1
           = failed Kawaii 100 s1
       \<and> log_food_and_plot Kawaii ''Water - 0 kcal'' None None ''2024-01-05'' s1
           = failed Kawaii 100 s1
       \<and> log_food_and_plot HCA ''Other'' None (Some 120) ''2024-01-05'' s1
           = failed HCA 100 s1
       \<and> log_food_and_plot HCA ''Other'' (Some []) (Some 120) ''2024-01-05'' s1
           = failed HCA 100 s1
       \<and> log_food_and_plot HCA ''Other'' (Some ''Soup'') None ''2024-01-05'' s1
           = failed HCA 100 s1
       \<and> log_food_and_plot Kawaii ''Other'' (Some ''Soup'') (Some (- 5)) ''2024-01-05'' initial
           = failed Kawaii 0 initial)"
proof -
  define s1 where "s1 = initial\<lparr>daily_calories :=
                DAList.update ''2024-01-05'' 100
                  (DAList.update ''2024-01-04'' 300 DAList.empty)\<rparr>"
  have today: "DAList.lookup (daily_calories s1) ''2024-01-05'' = Some 100"
    by (simp add: s1_def)
  have fresh: "DAList.lookup (daily_calories initial) ''2024-01-05'' = None"
    by (simp add: initial_def)
  have soup: "resolve_entry ''Other'' (Some ''Soup'') (Some (- 5)) = Inr (0, [])"
    by (simp add: resolve_other)
  have water: "resolve_entry ''Water - 0 kcal'' None None = Inr (0, ''Water'')"
    by code_simp
  note a = log_soft_failure [where food = "''Other''" and mn = "Some ''Soup''"
      and mc = "Some (- 5)" and c = 0 and n = "[]" and T = Kawaii and today = "''2024-01-05''"
      and s = s1 and mn' = "Some ''Soup''" and mc' = "Some (- 5)"]
  note b = log_soft_failure [where food = "''Water - 0 kcal''" and mn = None
      and mc = None and c = 0 and n = "''Water''" and T = Kawaii and today = "''2024-01-05''"
      and s = s1 and mn' = None and mc' = None]
  note c = log_soft_failure [where food = "''Other''" and mn = "Some ''Soup''"
      and mc = "Some (- 5)" and c = 0 and n = "[]" and T = HCA and today = "''2024-01-05''"
      and s = s1 and mn' = None and mc' = "Some 120"]
  note d = log_soft_failure [where food = "''Other''" and mn = "Some ''Soup''"
      and mc = "Some (- 5)" and c = 0 and n = "[]" and T = HCA and today = "''2024-01-05''"
      and s = s1 and mn' = "Some []" and mc' = "Some 120"]
  note e = log_soft_failure [where food = "''Other''" and mn = "Some ''Soup''"
      and mc = "Some (- 5)" and c = 0 and n = "[]" and T = HCA and today = "''2024-01-05''"
      and s = s1 and mn' = "Some ''Soup''" and mc' = None]
  note f = log_soft_failure [where food = "''Other''" and mn = "Some ''Soup''"
      and mc = "Some (- 5)" and c = 0 and n = "[]" and T = Kawaii and today = "''2024-01-05''"
      and s = initial and mn' = "Some ''Soup''" and mc' = "Some (- 5)"]
  from a b c d e f show ?thesis
    unfolding Let_def s1_def [symmetric]
    by (simp add: soup water today fresh)
qed

subsection \<open>The chart and its gate\<close>

lemma chart_bars:
  fixes dc :: "(string, number) alist"
  defines "bars \<equiv> map (\<lambda>d. (d, the (DAList.lookup dc d))) (sort (map fst (DAList.impl_of dc)))"
  shows "sorted (map fst bars)" and "distinct (map fst bars)"
    and "map_of bars = DAList.lookup dc"
proof -
  have keys: "map fst bars = sort (map fst (DAList.impl_of dc))"
    by (simp add: bars_def comp_def)
  show "sorted (map fst bars)" and "distinct (map fst bars)"
    by (simp_all add: keys)
  show "map_of bars = DAList.lookup dc"
  proof
    fix d
    show "map_of bars d = DAList.lookup dc d"
    proof (cases "d \<in> fst ` set (DAList.impl_of dc)")
      case True
      then have "DAList.lookup dc d \<noteq> None"
        by (simp add: DAList.lookup.rep_eq map_of_eq_None_iff)
      with True show ?thesis
        by (auto simp: bars_def map_of_map_restrict restrict_map_def)
    next
      case False
      then have "DAList.lookup dc d = None"
        by (simp add: DAList.lookup.rep_eq map_of_eq_None_iff)
      with False show ?thesis
        by (auto simp: bars_def map_of_map_restrict restrict_map_def)
    qed
  qed
qed

lemma log_chart_only_with_tdee:
  assumes "log_food_and_plot T food mn mc today s = (Inr (tot, BarChart bars y lab, msg), s')"
  shows "tdee_value s \<noteq> 0 \<and> y = tdee_value s \<and> sorted (map fst bars)
    \<and> distinct (map fst bars) \<and> map_of bars = DAList.lookup (daily_calories s')"
proof (cases "resolve_entry food mn mc")
  case (Inl e)
  with assms show ?thesis
    by (simp add: log_food_and_plot_def)
next
  case (Inr r)
  obtain c n where r: "r = (c, n)"
    by (cases r)
  show ?thesis
  proof (cases "c \<le> 0 \<or> n = []")
    case True
    from assms show ?thesis
      unfolding log_invalid [OF Inr [unfolded r] True] by simp
  next
    case False
    then have v: "0 < c" "n \<noteq> []"
      by auto
    define dc where
      "dc = DAList.update today (dict_get (daily_calories s) today 0 + c) (daily_calories s)"
    from assms have tz: "tdee_value s \<noteq> 0"
      and b: "bars = map (\<lambda>d. (d, the (DAList.lookup dc d))) (sort (map fst (DAList.impl_of dc)))"
      and y: "y = tdee_value s"
      and s': "daily_calories s' = dc"
      unfolding log_valid [OF Inr [unfolded r] v] dc_def
      by (auto simp: Let_def split: if_splits)
    from tz y chart_bars [of dc] show ?thesis
      unfolding b s' by blast
  qed
qed

text \<open>
  Claim C3. A call of the food tracker that resolves a valid entry while the stored
  expenditure is 0 still adds the calories to today's total in the session, and returns
  the new total with the blank plot and the message that ask to calculate the TDEE
  first. Whenever a bar chart is returned, the stored expenditure is not 0; it is the
  height of the reference line, and the bars are the totals of all dates in the session
  in ascending order of the dates.
\<close>

theorem log_gated_by_tdee:
  "(resolve_entry food mn mc = Inr (c, n) \<and> 0 < c \<and> n \<noteq> [] \<and> tdee_value s = 0 \<longrightarrow>
      log_food_and_plot T food mn mc today s
        = (Inr (dict_get (daily_calories s) today 0 + c,
                EmptyPlot [Lit (tdee_first_msg T)], [Lit (tdee_first_msg T)]),
           s\<lparr>daily_calories :=
               DAList.update today (dict_get (daily_calories s) today 0 + c)
                 (daily_calories s)\<rparr>))
   \<and> (log_food_and_plot T food' mn' mc' today' s'
        = (Inr (tot, BarChart bars y lab, msg), s'') \<longrightarrow>
      tdee_value s' \<noteq> 0 \<and> y = tdee_value s' \<and> sorted (map fst bars)
      \<and> distinct (map fst bars) \<and> map_of bars = DAList.lookup (daily_calories s''))"
proof (intro conjI impI)
  assume "resolve_entry food mn mc = Inr (c, n) \<and> 0 < c \<and> n \<noteq> [] \<and> tdee_value s = 0"
  then show "log_food_and_plot T food mn mc today s
        = (Inr (dict_get (daily_calories s) today 0 + c,
                EmptyPlot [Lit (tdee_first_msg T)], [Lit (tdee_first_msg T)]),
           s\<lparr>daily_calories :=
               DAList.update today (dict_get (daily_calories s) today 0 + c)
                 (daily_calories s)\<rparr>)"
    by (simp add: log_valid Let_def)
next
  assume a: "log_food_and_plot T food' mn' mc' today' s'
        = (Inr (tot, BarChart bars y lab, msg), s'')"
  note r = log_chart_only_with_tdee [OF a]
  from r show "tdee_value s' \<noteq> 0" by simp
  from r show "y = tdee_value s'" by simp
  from r show "sorted (map fst bars)" by simp
  from r show "distinct (map fst bars)" by simp
  from r show "map_of bars = DAList.lookup (daily_calories s'')" by simp
qed

text \<open>
  An omelet logged in the initial session, where the expenditure is 0, and the same
  entry logged with an expenditure of 2000, which gives the chart.
\<close>

theorem log_gated_by_tdee_witness:
  "resolve_entry ''Omelet - 450 kcal'' None None = Inr (450, ''Omelet'')
   \<and> (0 :: number) < 450 \<and> ''Omelet'' \<noteq> [] \<and> tdee_value initial = 0
   \<and> log_food_and_plot Kawaii ''Omelet - 450 kcal'' None None ''2024-01-05'' initial
       = (Inr (450, EmptyPlot [Lit (tdee_first_msg Kawaii)], [Lit (tdee_first_msg Kawaii)]),
          initial\<lparr>daily_calories := DAList.update ''2024-01-05'' 450 DAList.empty\<rparr>)
   \<and> log_food_and_plot Kawaii ''Omelet - 450 kcal'' None None ''2024-01-05''
         (initial\<lparr>tdee_value := 2000\<rparr>)
       = (Inr (450, BarChart [(''2024-01-05'', 450)] 2000
                 [Lit (tdee_label_head Kawaii), Num 2000, Lit '' kcal)''],
               [Lit (log_ok_head Kawaii), Lit ''Omelet'', Lit '' - '', Num 450,
                Lit (log_ok_tail Kawaii)]),
          initial\<lparr>tdee_value := 2000,
            daily_calories := DAList.update ''2024-01-05'' 450 DAList.empty\<rparr>)
   \<and> tdee_value (initial\<lparr>tdee_value := 2000\<rparr>) \<noteq> 0"
proof -
  have r: "py_round 2000 = 2000"
    by code_simp
  have chart: "log_food_and_plot Kawaii ''Omelet - 450 kcal'' None None ''2024-01-05''
         (initial\<lparr>tdee_value := 2000\<rparr>)
       = (Inr (450, BarChart [(''2024-01-05'', 450)] 2000
                 [Lit (tdee_label_head Kawaii), Num 2000, Lit '' kcal)''],
               [Lit (log_ok_head Kawaii), Lit ''Omelet'', Lit '' - '', Num 450,
                Lit (log_ok_tail Kawaii)]),
          initial\<lparr>tdee_value := 2000,
            daily_calories := DAList.update ''2024-01-05'' 450 DAList.empty\<rparr>)"
    by (simp add: log_valid [OF resolve_omelet] Let_def initial_def dict_get_def r
        DAList.update.rep_eq DAList.empty.rep_eq)
  note t = log_gated_by_tdee [where food = "''Omelet - 450 kcal''" and mn = None
      and mc = None and c = 450 and n = "''Omelet''" and s = initial and T = Kawaii
      and today = "''2024-01-05''"
      and food' = "''Omelet - 450 kcal''" and mn' = None and mc' = None
      and today' = "''2024-01-05''" and s' = "initial\<lparr>tdee_value := 2000\<rparr>"
      and tot = 450 and bars = "[(''2024-01-05'', 450)]" and y = 2000
      and lab = "[Lit (tdee_label_head Kawaii), Num 2000, Lit '' kcal)'']"
      and msg = "[Lit (log_ok_head Kawaii), Lit ''Omelet'', Lit '' - '', Num 450,
                Lit (log_ok_tail Kawaii)]"
      and s'' = "initial\<lparr>tdee_value := 2000,
            daily_calories := DAList.update ''2024-01-05'' 450 DAList.empty\<rparr>"]
  have z: "tdee_value initial = 0"
    by (simp add: initial_def)
  have d: "daily_calories initial = DAList.empty"
    by (simp add: initial_def)
  from t resolve_omelet z chart show ?thesis
    by (simp add: d dict_get_def)
qed

subsection \<open>Successful logging\<close>

text \<open>
  Claim C7. On every successful call the calories are added to today's total, the new
  total is returned together with the message of success that names the food and the
  amount, and no other date changes. The code keeps the totals but not the message: in
  a session whose stored expenditure is 0, as it is at the start, it builds the message
  of success and then returns the request to calculate the TDEE first in its place. For
  an omelet of 450 kcal logged in the initial session the total of 450 is stored and
  returned, and the message returned names neither the omelet nor the 450; the same
  call with a stored expenditure of 2000 returns the message of success.
\<close>

theorem log_success_message_dropped:
  "resolve_entry ''Omelet - 450 kcal'' None None = Inr (450, ''Omelet'')
   \<and> log_food_and_plot Kawaii ''Omelet - 450 kcal'' None None ''2024-01-05'' initial
       = (Inr (450, EmptyPlot [Lit (tdee_first_msg Kawaii)], [Lit (tdee_first_msg Kawaii)]),
          initial\<lparr>daily_calories := DAList.update ''2024-01-05'' 450 DAList.empty\<rparr>)
   \<and> Lit ''Omelet'' \<notin> set [Lit (tdee_first_msg Kawaii)]
   \<and> Num 450 \<notin> set [Lit (tdee_first_msg Kawaii)]
   \<and> snd (snd (projr (fst (log_food_and_plot Kawaii ''Omelet - 450 kcal'' None None
         ''2024-01-05'' (initial\<lparr>tdee_value := 2000\<rparr>)))))
       = [Lit (log_ok_head Kawaii), Lit ''Omelet'', Lit '' - '', Num 450,
          Lit (log_ok_tail Kawaii)]
   \<and> fst (log_food_and_plot HCA ''Omelet - 450 kcal'' None None ''2024-01-05'' initial)
       = Inr (450, EmptyPlot [Lit (tdee_first_msg HCA)], [Lit (tdee_first_msg HCA)])"
proof -
  have z: "tdee_value initial = 0" and d: "daily_calories initial = DAList.empty"
    by (simp_all add: initial_def)
  have k: "''Omelet'' \<noteq> tdee_first_msg Kawaii"
    by (simp add: Kawaii_def)
  show ?thesis
    by (simp add: resolve_omelet log_valid [OF resolve_omelet] Let_def z d dict_get_def k)
qed

text \<open>
  What does hold on every successful call: the resolved calories are added to today's
  total in the session (from 0 when the date has no entry yet), the new total is
  returned, and the total of every other date, the BMI history and the stored
  expenditure are unchanged. The message is that of success exactly when the stored
  expenditure is not 0.
\<close>

lemma log_success_totals:
  assumes "resolve_entry food mn mc = Inr (c, n)" and "0 < c" and "n \<noteq> []"
  shows
    "\<exists>plot message s'.
       log_food_and_plot T food mn mc today s
         = (Inr (dict_get (daily_calories s) today 0 + c, plot, message), s')
       \<and> DAList.lookup (daily_calories s') today = Some (dict_get (daily_calories s) today 0 + c)
       \<and> (\<forall>d. d \<noteq> today \<longrightarrow>
             DAList.lookup (daily_calories s') d = DAList.lookup (daily_calories s) d)
       \<and> (tdee_value s \<noteq> 0 \<longrightarrow>
             message = [Lit (log_ok_head T), Lit n, Lit '' - '', Num c, Lit (log_ok_tail T)])
       \<and> (tdee_value s = 0 \<longrightarrow> message = [Lit (tdee_first_msg T)])
       \<and> bmi_history s' = bmi_history s \<and> tdee_value s' = tdee_value s"
  by (cases "tdee_value s = 0") (simp_all add: log_valid [OF assms] Let_def)

text \<open>
  With 300 kcal on the day before and an expenditure of 2000: logging 500 kcal and then
  90 kcal gives 500 and then 590 for the day, and leaves the day before at 300.
\<close>

lemma log_success_totals_example:
  "(let s0 = initial\<lparr>daily_calories := DAList.update ''2024-01-04'' 300 DAList.empty,
                      tdee_value := 2000\<rparr>;
        A = log_food_and_plot Kawaii ''Chicken with bazil - 500 kcal'' None None
              ''2024-01-05'' s0;
        B = log_food_and_plot Kawaii ''Tom Yum Kung - 90 kcal'' None None
              ''2024-01-05'' (snd A)
    in resolve_entry ''Chicken with bazil - 500 kcal'' None None
         = Inr (500, ''Chicken with bazil'')
       \<and> (0 :: number) < 500 \<and> ''Chicken with bazil'' \<noteq> []
       \<and> map_sum id fst (fst A) = Inr 500
       \<and> map_sum id (snd \<circ> snd) (fst A)
           = Inr [Lit (log_ok_head Kawaii), Lit ''Chicken with bazil'', Lit '' - '', Num 500,
                  Lit (log_ok_tail Kawaii)]
       \<and> map_sum id fst (fst B) = Inr 590
       \<and> DAList.lookup (daily_calories (snd B)) ''2024-01-05'' = Some 590
       \<and> DAList.lookup (daily_calories (snd B)) ''2024-01-04'' = Some 300)"
proof -
  define s0 where "s0 = initial\<lparr>daily_calories := DAList.update ''2024-01-04'' 300 DAList.empty,
                      tdee_value := 2000\<rparr>"
  define A where "A = log_food_and_plot Kawaii ''Chicken with bazil - 500 kcal'' None None
              ''2024-01-05'' s0"
  define B where "B = log_food_and_plot Kawaii ''Tom Yum Kung - 90 kcal'' None None
              ''2024-01-05'' (snd A)"
  have d0: "dict_get (daily_calories s0) ''2024-01-05'' 0 = 0"
    and o0: "DAList.lookup (daily_calories s0) ''2024-01-04'' = Some 300"
    and t0: "tdee_value s0 \<noteq> 0"
    by (simp_all add: s0_def dict_get_def)
  from log_success_totals [OF resolve_chicken, where T = Kawaii
      and today = "''2024-01-05''" and s = s0]
  obtain p1 m1 s1 where
    a: "A = (Inr (dict_get (daily_calories s0) ''2024-01-05'' 0 + 500, p1, m1), s1)"
    and a1: "DAList.lookup (daily_calories s1) ''2024-01-05''
      = Some (dict_get (daily_calories s0) ''2024-01-05'' 0 + 500)"
    and a2: "\<forall>d. d \<noteq> ''2024-01-05'' \<longrightarrow>
      DAList.lookup (daily_calories s1) d = DAList.lookup (daily_calories s0) d"
    and a3: "tdee_value s0 \<noteq> 0 \<longrightarrow>
      m1 = [Lit (log_ok_head Kawaii), Lit ''Chicken with bazil'', Lit '' - '', Num 500,
            Lit (log_ok_tail Kawaii)]"
    unfolding A_def by auto
  have a1': "DAList.lookup (daily_calories s1) ''2024-01-05'' = Some 500"
    using a1 by (simp add: d0)
  have d1: "dict_get (daily_calories s1) ''2024-01-05'' 0 = 500"
    by (simp add: dict_get_def a1')
  from log_success_totals [OF resolve_tom_yum, where T = Kawaii
      and today = "''2024-01-05''" and s = s1]
  obtain p2 m2 s2 where
    b: "B = (Inr (dict_get (daily_calories s1) ''2024-01-05'' 0 + 90, p2, m2), s2)"
    and b1: "DAList.lookup (daily_calories s2) ''2024-01-05''
      = Some (dict_get (daily_calories s1) ''2024-01-05'' 0 + 90)"
    and b2: "\<forall>d. d \<noteq> ''2024-01-05'' \<longrightarrow>
      DAList.lookup (daily_calories s2) d = DAList.lookup (daily_calories s1) d"
    unfolding B_def a by auto
  have "map_sum id fst (fst A) = Inr 500"
    and "map_sum id (snd \<circ> snd) (fst A)
           = Inr [Lit (log_ok_head Kawaii), Lit ''Chicken with bazil'', Lit '' - '', Num 500,
                  Lit (log_ok_tail Kawaii)]"
    and "map_sum id fst (fst B) = Inr 590"
    and "DAList.lookup (daily_calories (snd B)) ''2024-01-05'' = Some 590"
    and "DAList.lookup (daily_calories (snd B)) ''2024-01-04'' = Some 300"
    using a3 t0 a2 b2 o0 by (simp_all add: a b d0 d1 b1)
  then show ?thesis
    unfolding Let_def s0_def [symmetric] A_def [symmetric] B_def [symmetric]
    by (simp add: resolve_chicken)
qed

subsection \<open>Catalog strings without a number\<close>

text \<open>
  Claim C4 as it is written does not hold: for the selection \<open>Banana\<close> the conversion of
  the last piece to an integer fails, and the call ends with that \<^verbatim>\<open>ValueError\<close>
  instead of a result.
\<close>

theorem log_malformed_catalog_counterexample:
  "''Banana'' \<noteq> ''Other''
   \<and> py_int (py_replace '' kcal'' [] (last (py_split '' - '' ''Banana''))) = None
   \<and> fst (log_food_and_plot Kawaii ''Banana'' None None ''2024-01-05'' initial)
       = Inl ValueError
   \<and> fst (log_food_and_plot HCA ''Banana'' None None ''2024-01-05'' initial)
       = Inl ValueError"
  by (simp add: log_food_and_plot_def resolve_catalog banana_suffix)

text \<open>
  Claim C4, amended. For every selection other than \<open>Other\<close> whose last piece, with
  the unit removed, does not convert to an integer, the food tracker raises
  \<^verbatim>\<open>ValueError\<close> and leaves the session state as it was; nothing in the function
  catches it.
\<close>

theorem log_malformed_catalog_raises:
  assumes "food \<noteq> ''Other''"
    and "py_int (py_replace '' kcal'' [] (last (py_split '' - '' food))) = None"
  shows "log_food_and_plot T food mn mc today s = (Inl ValueError, s)"
  using assms by (simp add: log_food_and_plot_def resolve_catalog)


text \<open>
  The selection \<open>Banana\<close> in the initial session, and a selection whose number is
  preceded by the separator U+001C, which \<^verbatim>\<open>int\<close> does not skip.
\<close>

theorem log_malformed_catalog_raises_witness:
  "''Banana'' \<noteq> ''Other''
   \<and> py_int (py_replace '' kcal'' [] (last (py_split '' - '' ''Banana''))) = None
   \<and> log_food_and_plot Kawaii ''Banana'' None None ''2024-01-05'' initial
       = (Inl ValueError, initial)
   \<and> py_int (py_replace '' kcal'' [] (last (py_split '' - ''
         (''X - '' @ [CHR 0x1C] @ ''5 kcal'')))) = None
   \<and> log_food_and_plot HCA (''X - '' @ [CHR 0x1C] @ ''5 kcal'') None None ''2024-01-05''
         initial
       = (Inl ValueError, initial)"
proof -
  have sep: "py_int (py_replace '' kcal'' [] (last (py_split '' - ''
         (''X - '' @ [CHR 0x1C] @ ''5 kcal'')))) = None"
    by code_simp
  have ne: "''X - '' @ [CHR 0x1C] @ ''5 kcal'' \<noteq> ''Other''"
    by simp
  from log_malformed_catalog_raises [where food = "''Banana''" and T = Kawaii and mn = None
      and mc = None and today = "''2024-01-05''" and s = initial]
    log_malformed_catalog_raises [OF ne sep, where T = HCA and mn = None
      and mc = None and today = "''2024-01-05''" and s = initial]
    banana_suffix sep
  show ?thesis
    by simp
qed

text \<open>
  The converse: a selection whose last piece converts to an integer does not raise. A
  number written in another script converts as well: five in Arabic-Indic digits is
  logged as 5 kcal.
\<close>

lemma log_catalog_parses:
  assumes "food \<noteq> ''Other''"
    and "py_int (py_replace '' kcal'' [] (last (py_split '' - '' food))) = Some k"
  shows "\<exists>r. fst (log_food_and_plot T food mn mc today s) = Inr r"
  using assms by (auto simp: log_food_and_plot_def resolve_catalog Let_def)

lemma resolve_other_script:
  "resolve_entry (''X - '' @ [CHR 0xD9, CHR 0xA5] @ '' kcal'') None None = Inr (5, ''X'')"
  by code_simp

subsection \<open>The BMI history\<close>

lemma bmi_calls_append: "bmi_calls T (xs @ ys) s = bmi_calls T ys (bmi_calls T xs s)"
  by (induction xs arbitrary: s) auto

lemma one_entry:
  "distinct (map fst xs) \<Longrightarrow> map_of xs k = Some v \<Longrightarrow>
   length (filter (\<lambda>(k', v'). k' = k) xs) = 1"
proof (induction xs)
  case Nil
  then show ?case by simp
next
  case (Cons a xs)
  obtain a1 a2 where a: "a = (a1, a2)"
    by (cases a)
  show ?case
  proof (cases "a1 = k")
    case True
    with Cons.prems a have "\<forall>x \<in> set xs. fst x \<noteq> k"
      by auto
    then have "filter (\<lambda>(k', v'). k' = k) xs = []"
      by (auto simp: filter_empty_conv)
    with True a show ?thesis
      by simp
  next
    case False
    with Cons a show ?thesis
      by simp
  qed
qed

lemma bmi_history_step:
  assumes "0 < h" and "0 < w" and "strptime ds = Some d"
  shows "bmi_history (snd (calculate_and_track_bmi T h w u ds s))
    = DAList.update (strftime d) (fst (fst (calculate_and_track_bmi T h w u ds s)))
        (bmi_history s)"
  using assms by (simp add: bmi_ok Let_def)

lemma strptime_short: "strptime ''2024-1-5'' = Some \<lparr>year = 2024, month = 1, day = 5\<rparr>"
  by code_simp

lemma strftime_example: "strftime \<lparr>year = 2024, month = 1, day = 5\<rparr> = ''2024-01-05''"
  by code_simp

text \<open>
  Claim C8. After a non-empty sequence of successful calls of the BMI calculator whose
  dates all normalise to the same text, the history holds exactly one entry under that
  text, and its value is the BMI returned by the last call. Each successful call stores
  its BMI under the normalised date, in place of an entry already there.
\<close>

theorem bmi_history_last_write_wins:
  assumes "calls \<noteq> []"
    and "\<forall>(h, w, u, ds) \<in> set calls.
           0 < h \<and> 0 < w \<and> map_option strftime (strptime ds) = Some key"
  shows
    "(let (h, w, u, ds) = last calls;
          before = bmi_calls T (butlast calls) s;
          after = bmi_calls T calls s
      in DAList.lookup (bmi_history after) key
           = Some (fst (fst (calculate_and_track_bmi T h w u ds before)))
         \<and> length (filter (\<lambda>(k, v). k = key) (DAList.impl_of (bmi_history after))) = 1)
     \<and> (0 < height \<and> 0 < weight \<and> strptime date_str = Some d \<longrightarrow>
          bmi_history (snd (calculate_and_track_bmi T height weight units date_str s'))
            = DAList.update (strftime d)
                (fst (fst (calculate_and_track_bmi T height weight units date_str s')))
                (bmi_history s'))"
proof -
  obtain h w u ds where l: "last calls = (h, w, u, ds)"
    by (cases "last calls")
  define before where "before = bmi_calls T (butlast calls) s"
  from assms(1) have split: "calls = butlast calls @ [(h, w, u, ds)]"
    using l by (metis append_butlast_last_id)
  have "(h, w, u, ds) \<in> set calls"
    using assms(1) l by (metis last_in_set)
  with assms(2) have ok: "0 < h" "0 < w" and k: "map_option strftime (strptime ds) = Some key"
    by auto
  from k obtain d' where d': "strptime ds = Some d'" and key: "strftime d' = key"
    by auto
  have after: "bmi_calls T calls s = snd (calculate_and_track_bmi T h w u ds before)"
    by (subst split) (simp add: bmi_calls_append before_def)
  have hist: "bmi_history (bmi_calls T calls s)
    = DAList.update key (fst (fst (calculate_and_track_bmi T h w u ds before)))
        (bmi_history before)"
    unfolding after bmi_history_step [OF ok d'] key ..
  have look: "DAList.lookup (bmi_history (bmi_calls T calls s)) key
    = Some (fst (fst (calculate_and_track_bmi T h w u ds before)))"
    unfolding hist by simp
  have one: "length (filter (\<lambda>(k, v). k = key)
      (DAList.impl_of (bmi_history (bmi_calls T calls s)))) = 1"
    by (rule one_entry [OF _ look [unfolded DAList.lookup.rep_eq]]) simp
  show ?thesis
    using look one by (simp add: l before_def bmi_history_step)
qed

text \<open>
  Two calls for the same day, written 2024-01-05 and 2024-1-5: the history ends with the
  single entry 31.14 of the second call.
\<close>

theorem bmi_history_last_write_wins_witness:
  "[(170 :: number, 70 :: number, ''cm/kg'', ''2024-01-05''), (170, 90, ''cm/kg'', ''2024-1-5'')]
     \<noteq> []
   \<and> (0 :: number) < 170 \<and> (0 :: number) < 70
   \<and> map_option strftime (strptime ''2024-01-05'') = Some ''2024-01-05''
   \<and> (0 :: number) < 90
   \<and> map_option strftime (strptime ''2024-1-5'') = Some ''2024-01-05''
   \<and> DAList.lookup (bmi_history (bmi_calls Kawaii
         [(170, 70, ''cm/kg'', ''2024-01-05''), (170, 90, ''cm/kg'', ''2024-1-5'')] initial))
         ''2024-01-05'' = Some 31.14
   \<and> length (filter (\<lambda>(k, v). k = ''2024-01-05'') (DAList.impl_of (bmi_history
         (bmi_calls Kawaii
           [(170, 70, ''cm/kg'', ''2024-01-05''), (170, 90, ''cm/kg'', ''2024-1-5'')]
           initial)))) = 1
   \<and> DAList.impl_of (bmi_history (bmi_calls Kawaii
         [(170, 70, ''cm/kg'', ''2024-01-05''), (170, 90, ''cm/kg'', ''2024-1-5'')] initial))
       = [(''2024-01-05'', 31.14)]"
proof -
  define calls :: "(number \<times> number \<times> string \<times> string) list"
    where "calls = [(170, 70, ''cm/kg'', ''2024-01-05''), (170, 90, ''cm/kg'', ''2024-1-5'')]"
  have ne: "calls \<noteq> []"
    by (simp add: calls_def)
  have ok: "\<forall>(h, w, u, ds) \<in> set calls.
      0 < h \<and> 0 < w \<and> map_option strftime (strptime ds) = Some ''2024-01-05''"
    by (simp add: calls_def strptime_example strptime_short strftime_example)
  have v1: "fst (calculate_and_track_bmi Kawaii 170 70 ''cm/kg'' ''2024-01-05'' s)
      = (24.22, ''Normal weight'',
         [Lit ''Your BMI is '', Num 24.22, Lit ''. Category: '', Lit ''Normal weight'',
          Lit (bmi_msg_tail Kawaii)])" for s
    by (rule bmi_metric_example [OF strptime_example]; code_simp)
  have v2: "fst (calculate_and_track_bmi Kawaii 170 90 ''cm/kg'' ''2024-1-5'' s)
      = (31.14, ''Obese'',
         [Lit ''Your BMI is '', Num 31.14, Lit ''. Category: '', Lit ''Obese'',
          Lit (bmi_msg_tail Kawaii)])" for s
    by (rule bmi_metric_example [OF strptime_short]; code_simp)
  have p: "(0 :: number) < 170" "(0 :: number) < 70" "(0 :: number) < 90"
    by simp_all
  have h1: "bmi_history (snd (calculate_and_track_bmi Kawaii 170 70 ''cm/kg'' ''2024-01-05''
      initial)) = DAList.update ''2024-01-05'' 24.22 DAList.empty"
    unfolding bmi_history_step [OF p(1) p(2) strptime_example] v1 strftime_example
    by (simp add: initial_def)
  have h2: "bmi_history (bmi_calls Kawaii calls initial)
      = DAList.update ''2024-01-05'' 31.14 (DAList.update ''2024-01-05'' 24.22 DAList.empty)"
    unfolding calls_def bmi_calls.simps bmi_history_step [OF p(1) p(3) strptime_short] v2
      strftime_example h1
    by simp
  have impl: "DAList.impl_of (bmi_history (bmi_calls Kawaii calls initial))
      = [(''2024-01-05'', 31.14)]"
    unfolding h2 by (simp add: DAList.update.rep_eq DAList.empty.rep_eq)
  from bmi_history_last_write_wins [OF ne ok, where T = Kawaii and s = initial,
      THEN conjunct1]
  have "DAList.lookup (bmi_history (bmi_calls Kawaii calls initial)) ''2024-01-05'' = Some 31.14"
    and "length (filter (\<lambda>(k, v). k = ''2024-01-05'')
      (DAList.impl_of (bmi_history (bmi_calls Kawaii calls initial)))) = 1"
    by (simp_all add: calls_def v2 Let_def)
  with ne ok impl show ?thesis
    unfolding calls_def by simp
qed

end
